theory Spec2Isabelle
  imports Main
begin

section \<open>Data model\<close>

text \<open>
  The rows of the five relations of the schema (the migration creating \<^verbatim>\<open>profiles\<close>,
  \<^verbatim>\<open>camps\<close>, \<^verbatim>\<open>camp_needs\<close>, \<^verbatim>\<open>volunteers\<close> and \<^verbatim>\<open>ngo_assistance\<close>). A column keeps its
  name; a name that several tables share (\<^verbatim>\<open>id\<close>, \<^verbatim>\<open>camp_id\<close>, \<^verbatim>\<open>name\<close>, \<^verbatim>\<open>location\<close>,
  \<^verbatim>\<open>status\<close>) or that Isabelle reserves (\<^verbatim>\<open>notes\<close>) is suffixed with its table. The objects the dashboards hold (\<^verbatim>\<open>Camp\<close>,
  \<^verbatim>\<open>Need\<close>) are rows as \<^verbatim>\<open>select("*")\<close> returned them, so they have the row types.
  The generated columns \<^verbatim>\<open>id\<close> and \<^verbatim>\<open>created_at\<close> of \<^verbatim>\<open>volunteers\<close> and
  \<^verbatim>\<open>ngo_assistance\<close> carry no logic: such a row is identified by its position in its
  table, which only grows.
\<close>

type_synonym uuid = string

datatype app_role = user | camp | ngo

record profiles_row =
  id_profiles :: uuid
  full_name :: string
  phone :: "string option"
  role :: app_role

record camps_row =
  id_camps :: uuid
  camp_admin_id :: uuid
  name_camps :: string
  location_camps :: string
  total_capacity :: int
  occupied_seats :: int
  contact_phone :: string
  status_camps :: string

record camp_needs_row =
  id_camp_needs :: uuid
  camp_id_camp_needs :: uuid
  item_name :: string
  quantity_needed :: int
  quantity_fulfilled :: int
  urgency :: string
  status_camp_needs :: string

record volunteers_row =
  user_id :: uuid
  camp_id_volunteers :: "uuid option"
  volunteer_type :: string
  status_volunteers :: "string option"

record ngo_assistance_row =
  ngo_id :: uuid
  camp_id_ngo_assistance :: uuid
  need_id :: "uuid option"
  items_provided :: string
  quantity :: int
  delivery_status :: "string option"
  notes_ngo_assistance :: "string option"

text \<open>The database: one list of rows per table.\<close>

record db =
  profiles :: "profiles_row list"
  camps :: "camps_row list"
  camp_needs :: "camp_needs_row list"
  volunteers :: "volunteers_row list"
  ngo_assistance :: "ngo_assistance_row list"

text \<open>
  What a request can fail with: the two handlers throw \<^verbatim>\<open>new Error("Not authenticated")\<close>
  when there is no session, and rethrow the error object of a failed insert. A database
  error carries what PostgreSQL names in its message: the table, the constraint or column,
  the value.
\<close>

datatype pg_error =
  NumericOutOfRange int
  | RlsViolation string
  | NotNullViolation string string
  | CheckViolation string string
  | UniqueViolation string
  | ForeignKeyViolation string string

datatype js_error = NotAuthenticated | PostgrestError pg_error

text \<open>A number as JSON writes it, for an integer below 2^53: its decimal digits.\<close>

definition digit_char :: "nat \<Rightarrow> char" where
  "digit_char n = ''0123456789'' ! (n mod 10)"

function nat_decimal :: "nat \<Rightarrow> string" where
  "nat_decimal n =
     (if n < 10 then [digit_char n] else nat_decimal (n div 10) @ [digit_char (n mod 10)])"
  by pat_completeness auto
termination
  by (relation "measure id") auto

declare nat_decimal.simps [simp del]

definition int_decimal :: "int \<Rightarrow> string" where
  "int_decimal v = (if v < 0 then CHR ''-'' # nat_decimal (nat (- v)) else nat_decimal (nat v))"

text \<open>\<^verbatim>\<open>error.message\<close>: the text of the thrown \<^verbatim>\<open>Error\<close>, or PostgreSQL's primary message,
  which the REST layer passes on.\<close>

fun message :: "js_error \<Rightarrow> string" where
  \<open>message NotAuthenticated = ''Not authenticated''\<close>
| \<open>message (PostgrestError (NumericOutOfRange v)) =
     ''value "'' @ int_decimal v @ ''" is out of range for type integer''\<close>
| \<open>message (PostgrestError (RlsViolation t)) =
     ''new row violates row-level security policy for table "'' @ t @ ''"''\<close>
| \<open>message (PostgrestError (NotNullViolation c t)) =
     ''null value in column "'' @ c @ ''" of relation "'' @ t @ ''" violates not-null constraint''\<close>
| \<open>message (PostgrestError (CheckViolation t k)) =
     ''new row for relation "'' @ t @ ''" violates check constraint "'' @ k @ ''"''\<close>
| \<open>message (PostgrestError (UniqueViolation k)) =
     ''duplicate key value violates unique constraint "'' @ k @ ''"''\<close>
| \<open>message (PostgrestError (ForeignKeyViolation t k)) =
     ''insert or update on table "'' @ t @ ''" violates foreign key constraint "'' @ k @ ''"''\<close>

text \<open>
  What the user sees of one interaction: the handler did not run at all (a disabled button,
  a form that fails its constraints), it returned at once, or it ended in a toast.
\<close>

datatype outcome = NotRun | Returned | ToastSuccess string | ToastError string

text \<open>JavaScript's \<^verbatim>\<open>String.prototype.includes\<close>: the pattern is a prefix of the string
  from some position on.\<close>

fun startsWith :: "string \<Rightarrow> string \<Rightarrow> bool" where
  "startsWith s [] = True"
| "startsWith [] (p # ps) = False"
| "startsWith (c # cs) (p # ps) = (c = p \<and> startsWith cs ps)"

fun includes_str :: "string \<Rightarrow> string \<Rightarrow> bool" where
  "includes_str [] p = (p = [])"
| "includes_str (c # cs) p = (startsWith (c # cs) p \<or> includes_str cs p)"

text \<open>The range of the SQL type \<^verbatim>\<open>INTEGER\<close>.\<close>

definition int4 :: "int \<Rightarrow> bool" where
  "int4 v = (- 2147483648 \<le> v \<and> v \<le> 2147483647)"

section \<open>The quantity field: its text, its number, and what parseInt reads\<close>

text \<open>
  The value of \<^verbatim>\<open><input type="number">\<close> is a text: empty, or a valid floating-point
  number (the browser empties the field otherwise): an optional \<^verbatim>\<open>-\<close>, digits, an optional
  fraction (\<^verbatim>\<open>.\<close> and digits; the digits before the point may then be missing), an
  optional exponent (\<^verbatim>\<open>e\<close> or \<^verbatim>\<open>E\<close>, an optional sign, digits).
\<close>

definition digit :: "char \<Rightarrow> nat option" where
  "digit c = map_of (zip ''0123456789'' [0, 1, 2, 3, 4, 5, 6, 7, 8, 9]) c"

definition is_digit :: "char \<Rightarrow> bool" where
  "is_digit c = (digit c \<noteq> None)"

definition digits_value :: "string \<Rightarrow> nat" where
  "digits_value ds = foldl (\<lambda>a c. 10 * a + (case digit c of None \<Rightarrow> 0 | Some v \<Rightarrow> v)) 0 ds"

record float_parts =
  negative :: bool
  int_digits :: string
  frac_digits :: string
  exp_negative :: bool
  exp_digits :: string

definition floatParts :: "string \<Rightarrow> float_parts option" where
  "floatParts text =
     (let neg = (text \<noteq> [] \<and> hd text = CHR ''-'');
          s1 = (if neg then tl text else text);
          ip = takeWhile is_digit s1;
          s2 = dropWhile is_digit s1;
          has_frac = (s2 \<noteq> [] \<and> hd s2 = CHR ''.'');
          fp = (if has_frac then takeWhile is_digit (tl s2) else []);
          s3 = (if has_frac then dropWhile is_digit (tl s2) else s2);
          has_exp = (s3 \<noteq> [] \<and> (hd s3 = CHR ''e'' \<or> hd s3 = CHR ''E''));
          s4 = (if has_exp then tl s3 else s3);
          eneg = (has_exp \<and> s4 \<noteq> [] \<and> hd s4 = CHR ''-'');
          s5 = (if has_exp \<and> s4 \<noteq> [] \<and> (hd s4 = CHR ''-'' \<or> hd s4 = CHR ''+'')
                then tl s4 else s4);
          ed = (if has_exp then takeWhile is_digit s5 else []);
          rest = (if has_exp then dropWhile is_digit s5 else s3)
      in if (ip = [] \<and> fp = []) \<or> (has_frac \<and> fp = []) \<or> (has_exp \<and> ed = []) \<or> rest \<noteq> []
         then None
         else Some \<lparr>negative = neg, int_digits = ip, frac_digits = fp,
                    exp_negative = eneg, exp_digits = ed\<rparr>)"

text \<open>
  The number a valid text denotes is \<open>mantissa * 10 ^ exponent10\<close>; \<open>fieldInteger\<close> is that
  number when it is whole.
\<close>

definition mantissa :: "float_parts \<Rightarrow> int" where
  "mantissa p =
     (if negative p then - int (digits_value (int_digits p @ frac_digits p))
      else int (digits_value (int_digits p @ frac_digits p)))"

definition exponent10 :: "float_parts \<Rightarrow> int" where
  "exponent10 p =
     (if exp_negative p then - int (digits_value (exp_digits p))
      else int (digits_value (exp_digits p))) - int (length (frac_digits p))"

definition fieldInteger :: "string \<Rightarrow> int option" where
  "fieldInteger text =
     (case floatParts text of
        None \<Rightarrow> None
      | Some p \<Rightarrow>
          if exponent10 p \<ge> 0 then Some (mantissa p * 10 ^ nat (exponent10 p))
          else if mantissa p mod 10 ^ nat (- exponent10 p) = 0
               then Some (mantissa p div 10 ^ nat (- exponent10 p))
          else None)"

text \<open>
  The browser compares the nearest IEEE double of the number, and JavaScript holds what
  \<^verbatim>\<open>parseInt\<close> reads as a double; floating-point rounding is outside this development.
  For a text of at most 15 digits in its mantissa and at most 2 in its exponent, rounding
  changes neither whether the number is whole, nor how it compares with a 32-bit integer,
  nor the integer \<^verbatim>\<open>parseInt\<close> reads. The operations on the field are defined for these
  texts and the empty one, and give \<open>None\<close> for any other.
\<close>

definition exactField :: "string \<Rightarrow> bool" where
  "exactField text =
     (text = [] \<or>
      (case floatParts text of
         None \<Rightarrow> False
       | Some p \<Rightarrow> length (int_digits p) + length (frac_digits p) \<le> 15
                   \<and> length (exp_digits p) \<le> 2))"

text \<open>
  \<^verbatim>\<open>parseInt\<close> on a field's text: a sign, then the longest run of decimal digits; NaN
  (\<open>None\<close>) when there is none. The other steps of \<^verbatim>\<open>parseInt\<close> (skipping white space, the
  prefix \<^verbatim>\<open>0x\<close>) never apply to the text of a number field.
\<close>

definition parseInt :: "string \<Rightarrow> int option" where
  "parseInt text =
     (let neg = (text \<noteq> [] \<and> hd text = CHR ''-'');
          s = (if text \<noteq> [] \<and> (hd text = CHR ''-'' \<or> hd text = CHR ''+'') then tl text else text);
          z = takeWhile is_digit s
      in if z = [] then None
         else Some (if neg then - int (digits_value z) else int (digits_value z)))"

text \<open>Whenever the field holds a whole number, \<^verbatim>\<open>parseInt\<close> reads that number from its text.
  Plain numerals such as \<^verbatim>\<open>7\<close> are of this kind; \<^verbatim>\<open>10e-1\<close> is not.\<close>

definition readsItsNumber :: "string \<Rightarrow> bool" where
  "readsItsNumber text =
     (case fieldInteger text of None \<Rightarrow> True | Some n \<Rightarrow> parseInt text = Some n)"

section \<open>The database: constraints and row-level security\<close>

text \<open>Referential constraints look a key up in the referenced table.\<close>

definition profile_exists :: "db \<Rightarrow> uuid \<Rightarrow> bool" where
  "profile_exists d i = list_ex (\<lambda>p. id_profiles p = i) (profiles d)"

definition camp_exists :: "db \<Rightarrow> uuid \<Rightarrow> bool" where
  "camp_exists d i = list_ex (\<lambda>c. id_camps c = i) (camps d)"

definition need_exists :: "db \<Rightarrow> uuid \<Rightarrow> bool" where
  "need_exists d i = list_ex (\<lambda>n. id_camp_needs n = i) (camp_needs d)"

text \<open>
  The sub-select of the policy "NGOs can provide assistance":
  \<^verbatim>\<open>EXISTS (SELECT 1 FROM profiles WHERE id = auth.uid() AND role = 'ngo')\<close>;
  every profile is visible ("Users can view all profiles").
\<close>

definition is_ngo :: "db \<Rightarrow> uuid \<Rightarrow> bool" where
  "is_ngo d uid = list_ex (\<lambda>p. id_profiles p = uid \<and> role p = ngo) (profiles d)"

text \<open>
  The policy "Camp admins can manage needs" (\<^verbatim>\<open>FOR ALL\<close>, the only policy of
  \<^verbatim>\<open>camp_needs\<close> that covers an update):
  \<^verbatim>\<open>EXISTS (SELECT 1 FROM camps WHERE camps.id = camp_id AND camps.camp_admin_id = auth.uid())\<close>.
  The sub-select reads \<^verbatim>\<open>camps\<close> as the caller, who sees the active camps only
  ("Anyone can view active camps").
\<close>

definition manages_need :: "db \<Rightarrow> uuid \<Rightarrow> camp_needs_row \<Rightarrow> bool" where
  "manages_need d uid n =
     list_ex (\<lambda>c. status_camps c = ''active'' \<and> id_camps c = camp_id_camp_needs n
                  \<and> camp_admin_id c = uid) (camps d)"

text \<open>
  The object handleProvideAssistance inserts (NGODashboard.tsx, lines 90-97). Its quantity
  is a JavaScript number; NaN (\<open>None\<close>) is sent as \<^verbatim>\<open>null\<close>. It names no
  \<^verbatim>\<open>delivery_status\<close>: the column's default \<^verbatim>\<open>'pledged'\<close> applies.
\<close>

record ngo_assistance_insert =
  ins_ngo_id :: uuid
  ins_camp_id :: uuid
  ins_need_id :: uuid
  ins_items_provided :: string
  ins_quantity :: "int option"
  ins_notes :: "string option"

text \<open>
  \<^verbatim>\<open>INSERT INTO ngo_assistance\<close> by the user \<open>uid\<close>: the number must fit \<^verbatim>\<open>INTEGER\<close>, the
  new row must pass the insert policy, \<^verbatim>\<open>quantity\<close> must not be null, and the three
  references must exist. The table puts no constraint on the sign of \<^verbatim>\<open>quantity\<close>.
\<close>

definition insert_ngo_assistance :: "db \<Rightarrow> uuid \<Rightarrow> ngo_assistance_insert \<Rightarrow> pg_error + db" where
  "insert_ngo_assistance d uid p =
     (case ins_quantity p of
        None \<Rightarrow>
          if \<not> (uid = ins_ngo_id p \<and> is_ngo d uid) then Inl (RlsViolation ''ngo_assistance'')
          else Inl (NotNullViolation ''quantity'' ''ngo_assistance'')
      | Some q \<Rightarrow>
          if \<not> int4 q then Inl (NumericOutOfRange q)
          else if \<not> (uid = ins_ngo_id p \<and> is_ngo d uid) then Inl (RlsViolation ''ngo_assistance'')
          else if \<not> profile_exists d (ins_ngo_id p)
               then Inl (ForeignKeyViolation ''ngo_assistance'' ''ngo_assistance_ngo_id_fkey'')
          else if \<not> camp_exists d (ins_camp_id p)
               then Inl (ForeignKeyViolation ''ngo_assistance'' ''ngo_assistance_camp_id_fkey'')
          else if \<not> need_exists d (ins_need_id p)
               then Inl (ForeignKeyViolation ''ngo_assistance'' ''ngo_assistance_need_id_fkey'')
          else Inr (d\<lparr>ngo_assistance := ngo_assistance d @
                 [\<lparr>ngo_id = ins_ngo_id p, camp_id_ngo_assistance = ins_camp_id p,
                   need_id = Some (ins_need_id p), items_provided = ins_items_provided p,
                   quantity = q, delivery_status = Some ''pledged'',
                   notes_ngo_assistance = ins_notes p\<rparr>]\<rparr>))"

text \<open>
  \<^verbatim>\<open>UPDATE camp_needs SET quantity_fulfilled = f, status = s WHERE id = nid\<close> by the user
  \<open>uid\<close> (NGODashboard.tsx, lines 105-111). Row-level security narrows the statement to
  the rows the caller manages; a row outside is skipped without an error. The new status
  must be one of the three the column's check allows.
\<close>

definition update_camp_needs :: "db \<Rightarrow> uuid \<Rightarrow> uuid \<Rightarrow> int \<Rightarrow> string \<Rightarrow> pg_error + db" where
  "update_camp_needs d uid nid f s =
     (if \<not> int4 f then Inl (NumericOutOfRange f)
      else if list_ex (\<lambda>n. id_camp_needs n = nid \<and> manages_need d uid n) (camp_needs d)
              \<and> s \<notin> set [''pending'', ''partial'', ''fulfilled'']
           then Inl (CheckViolation ''camp_needs'' ''camp_needs_status_check'')
      else Inr (d\<lparr>camp_needs :=
             map (\<lambda>n. if id_camp_needs n = nid \<and> manages_need d uid n
                       then n\<lparr>quantity_fulfilled := f, status_camp_needs := s\<rparr> else n)
                 (camp_needs d)\<rparr>))"

text \<open>
  \<^verbatim>\<open>INSERT INTO volunteers\<close> by the user \<open>uid\<close>: the policy "Users can register as
  volunteers", the two checks, \<^verbatim>\<open>UNIQUE(user_id, camp_id, volunteer_type)\<close> (which, as
  SQL has it, never matches a row whose \<^verbatim>\<open>camp_id\<close> is null) and the two references.
\<close>

definition same_triple :: "volunteers_row \<Rightarrow> volunteers_row \<Rightarrow> bool" where
  "same_triple r v =
     (user_id v = user_id r \<and> camp_id_volunteers v = camp_id_volunteers r
      \<and> volunteer_type v = volunteer_type r)"

definition insert_volunteers :: "db \<Rightarrow> uuid \<Rightarrow> volunteers_row \<Rightarrow> pg_error + db" where
  "insert_volunteers d uid r =
     (if uid \<noteq> user_id r then Inl (RlsViolation ''volunteers'')
      else if (case status_volunteers r of None \<Rightarrow> False
               | Some s \<Rightarrow> s \<notin> set [''active'', ''inactive''])
           then Inl (CheckViolation ''volunteers'' ''volunteers_status_check'')
      else if volunteer_type r \<notin> set [''camp_volunteer'', ''transportation'', ''general'']
           then Inl (CheckViolation ''volunteers'' ''volunteers_volunteer_type_check'')
      else if camp_id_volunteers r \<noteq> None \<and> list_ex (same_triple r) (volunteers d)
           then Inl (UniqueViolation ''volunteers_user_id_camp_id_volunteer_type_key'')
      else if \<not> profile_exists d (user_id r)
           then Inl (ForeignKeyViolation ''volunteers'' ''volunteers_user_id_fkey'')
      else if (case camp_id_volunteers r of None \<Rightarrow> False | Some c \<Rightarrow> \<not> camp_exists d c)
           then Inl (ForeignKeyViolation ''volunteers'' ''volunteers_camp_id_fkey'')
      else Inr (d\<lparr>volunteers := volunteers d @ [r]\<rparr>))"

section \<open>NGODashboard: pledging assistance\<close>

text \<open>
  The quantity field of the assistance form (NGODashboard.tsx, lines 256-264):
  \<^verbatim>\<open>type="number" min={1} max={quantity_needed - quantity_fulfilled} required\<close>, with the
  default step of 1 counted from the minimum. The browser submits the form only when the
  field satisfies its constraints as the HTML standard defines them: it is not empty, and
  its number is whole, at least 1 and at most the maximum.
\<close>

definition quantityInputValid :: "camp_needs_row \<Rightarrow> string \<Rightarrow> bool" where
  "quantityInputValid need text =
     (case fieldInteger text of
        None \<Rightarrow> False
      | Some n \<Rightarrow> 1 \<le> n \<and> n \<le> quantity_needed need - quantity_fulfilled need)"

text \<open>Lines 102-103: the values the handler writes back to the need.\<close>

definition newFulfilled :: "camp_needs_row \<Rightarrow> int \<Rightarrow> int" where
  "newFulfilled need q = quantity_fulfilled need + q"

definition newStatus :: "camp_needs_row \<Rightarrow> int \<Rightarrow> string" where
  "newStatus need q =
     (if newFulfilled need q \<ge> quantity_needed need then ''fulfilled'' else ''partial'')"

text \<open>
  handleProvideAssistance (lines 79-120). \<open>selectedNeed\<close> is the need the dialog was opened
  on, as the dashboard last read it; \<open>usr\<close> is the session's user, if any; \<open>text\<close> is the
  text of the quantity field, which line 84 gives to \<^verbatim>\<open>parseInt\<close>. The result of the update
  is not looked at: the handler goes on to the success toast whatever it was. With a
  quantity of NaN the insert always fails (lemma \<open>insert_NaN\<close> below), so the lines after
  it are not reached then.
\<close>

definition handleProvideAssistance ::
  "db \<Rightarrow> uuid option \<Rightarrow> camp_needs_row option \<Rightarrow> string \<Rightarrow> string option
     \<Rightarrow> (db \<times> outcome) option" where
  "handleProvideAssistance d usr selectedNeed text nts =
     (case selectedNeed of
        None \<Rightarrow> Some (d, Returned)
      | Some need \<Rightarrow>
          if \<not> exactField text then None
          else Some
            (case usr of
               None \<Rightarrow> (d, ToastError (message NotAuthenticated))
             | Some uid \<Rightarrow>
                 (case insert_ngo_assistance d uid
                         \<lparr>ins_ngo_id = uid, ins_camp_id = camp_id_camp_needs need,
                          ins_need_id = id_camp_needs need, ins_items_provided = item_name need,
                          ins_quantity = parseInt text, ins_notes = nts\<rparr> of
                    Inl e \<Rightarrow>
                      (d, ToastError (if message (PostgrestError e) = []
                                      then ''Failed to provide assistance''
                                      else message (PostgrestError e)))
                  | Inr d1 \<Rightarrow>
                      (case parseInt text of
                         None \<Rightarrow> (d1, ToastSuccess ''Assistance pledged successfully!'')
                       | Some q \<Rightarrow>
                           (case update_camp_needs d1 uid (id_camp_needs need)
                                   (newFulfilled need q) (newStatus need q) of
                              Inl e \<Rightarrow> (d1, ToastSuccess ''Assistance pledged successfully!'')
                            | Inr d2 \<Rightarrow> (d2, ToastSuccess ''Assistance pledged successfully!''))))))"

text \<open>Submitting the form (lines 245-277): rendered only for a selected need, and the
  handler runs only when the quantity field is valid.\<close>

definition submitAssistForm ::
  "db \<Rightarrow> uuid option \<Rightarrow> camp_needs_row option \<Rightarrow> string \<Rightarrow> string option
     \<Rightarrow> (db \<times> outcome) option" where
  "submitAssistForm d usr selectedNeed text nts =
     (case selectedNeed of
        None \<Rightarrow> Some (d, NotRun)
      | Some need \<Rightarrow>
          if \<not> exactField text then None
          else if quantityInputValid need text
               then handleProvideAssistance d usr (Some need) text nts
          else Some (d, NotRun))"

text \<open>
  What fetchData shows (lines 53-63): the needs whose status is not fulfilled. The order of
  the cards has no bearing on which need a click selects, so it is left out. A pledge made
  right after a read selects the card of a need and submits the form on that row.
\<close>

definition fetchData_needs :: "db \<Rightarrow> camp_needs_row list" where
  "fetchData_needs d = filter (\<lambda>n. status_camp_needs n \<noteq> ''fulfilled'') (camp_needs d)"

definition pledgeAfterFetch ::
  "db \<Rightarrow> uuid option \<Rightarrow> uuid \<Rightarrow> string \<Rightarrow> string option \<Rightarrow> (db \<times> outcome) option" where
  "pledgeAfterFetch d usr nid text nts =
     submitAssistForm d usr (find (\<lambda>n. id_camp_needs n = nid) (fetchData_needs d)) text nts"

text \<open>Pledges made one after the other, each after a read of its own.\<close>

fun pledgesAfterFetch ::
  "db \<Rightarrow> (uuid option \<times> uuid \<times> string \<times> string option) list \<Rightarrow> db option" where
  "pledgesAfterFetch d [] = Some d"
| "pledgesAfterFetch d ((usr, nid, text, nts) # ps) =
     (case pledgeAfterFetch d usr nid text nts of
        None \<Rightarrow> None
      | Some r \<Rightarrow> pledgesAfterFetch (fst r) ps)"

text \<open>What the ledger holds for a need: the sum of the quantities pledged to it.\<close>

definition pledged_for :: "db \<Rightarrow> uuid \<Rightarrow> int" where
  "pledged_for d nid =
     sum_list (map quantity (filter (\<lambda>a. need_id a = Some nid) (ngo_assistance d)))"


section \<open>The assistance ledger: what an update may change\<close>

text \<open>
  No component updates \<^verbatim>\<open>ngo_assistance\<close>; what a client may change is what the table
  accepts: the policy "NGOs can update own assistance" (\<^verbatim>\<open>USING (auth.uid() = ngo_id)\<close>,
  which also stands for the check of the new row, so that \<^verbatim>\<open>ngo_id\<close> cannot change), the
  check on \<^verbatim>\<open>delivery_status\<close> (a null passes it) and the references of the columns that
  changed. An update names the columns it sets.
\<close>

datatype 'a change = Keep | Set 'a

definition changed :: "'a change \<Rightarrow> 'a \<Rightarrow> 'a" where
  "changed c old = (case c of Keep \<Rightarrow> old | Set v \<Rightarrow> v)"

record ngo_assistance_update =
  set_ngo_id :: "uuid change"
  set_camp_id :: "uuid change"
  set_need_id :: "uuid option change"
  set_items_provided :: "string change"
  set_quantity :: "int change"
  set_delivery_status :: "string option change"
  set_notes :: "string option change"

definition patched :: "ngo_assistance_update \<Rightarrow> ngo_assistance_row \<Rightarrow> ngo_assistance_row" where
  "patched u r =
     \<lparr>ngo_id = changed (set_ngo_id u) (ngo_id r),
      camp_id_ngo_assistance = changed (set_camp_id u) (camp_id_ngo_assistance r),
      need_id = changed (set_need_id u) (need_id r),
      items_provided = changed (set_items_provided u) (items_provided r),
      quantity = changed (set_quantity u) (quantity r),
      delivery_status = changed (set_delivery_status u) (delivery_status r),
      notes_ngo_assistance = changed (set_notes u) (notes_ngo_assistance r)\<rparr>"

definition update_ngo_assistance ::
  "db \<Rightarrow> uuid \<Rightarrow> nat \<Rightarrow> ngo_assistance_update \<Rightarrow> pg_error + db" where
  "update_ngo_assistance d uid i u =
     (if (case set_quantity u of Keep \<Rightarrow> False | Set v \<Rightarrow> \<not> int4 v)
      then Inl (NumericOutOfRange (changed (set_quantity u) 0))
      else if \<not> (i < length (ngo_assistance d) \<and> ngo_id (ngo_assistance d ! i) = uid) then Inr d
      else if ngo_id (patched u (ngo_assistance d ! i)) \<noteq> uid
           then Inl (RlsViolation ''ngo_assistance'')
      else if (case delivery_status (patched u (ngo_assistance d ! i)) of
                 None \<Rightarrow> False
               | Some s \<Rightarrow> s \<notin> set [''pledged'', ''in_transit'', ''delivered''])
           then Inl (CheckViolation ''ngo_assistance'' ''ngo_assistance_delivery_status_check'')
      else if \<not> (camp_id_ngo_assistance (patched u (ngo_assistance d ! i))
                     = camp_id_ngo_assistance (ngo_assistance d ! i)
                   \<or> camp_exists d (camp_id_ngo_assistance (patched u (ngo_assistance d ! i))))
           then Inl (ForeignKeyViolation ''ngo_assistance'' ''ngo_assistance_camp_id_fkey'')
      else if (case need_id (patched u (ngo_assistance d ! i)) of
                 None \<Rightarrow> False
               | Some n \<Rightarrow> need_id (ngo_assistance d ! i) \<noteq> Some n \<and> \<not> need_exists d n)
           then Inl (ForeignKeyViolation ''ngo_assistance'' ''ngo_assistance_need_id_fkey'')
      else Inr (d\<lparr>ngo_assistance := (ngo_assistance d)[i := patched u (ngo_assistance d ! i)]\<rparr>))"

text \<open>The update that sets nothing; an update of one column is written from it.\<close>

definition noChange :: ngo_assistance_update where
  "noChange =
     \<lparr>set_ngo_id = Keep, set_camp_id = Keep, set_need_id = Keep, set_items_provided = Keep,
      set_quantity = Keep, set_delivery_status = Keep, set_notes = Keep\<rparr>"

section \<open>UserDashboard: registering as a volunteer\<close>

text \<open>handleVolunteer (lines 51-72).\<close>

definition volunteerErrorToast :: "js_error \<Rightarrow> outcome" where
  "volunteerErrorToast e =
     (if includes_str (message e) ''duplicate''
      then ToastError ''You're already registered for this camp''
      else ToastError ''Failed to register as volunteer'')"

definition handleVolunteer :: "db \<Rightarrow> uuid option \<Rightarrow> uuid \<Rightarrow> db \<times> outcome" where
  "handleVolunteer d usr campId =
     (case usr of
        None \<Rightarrow> (d, volunteerErrorToast NotAuthenticated)
      | Some uid \<Rightarrow>
          (case insert_volunteers d uid
                  \<lparr>user_id = uid, camp_id_volunteers = Some campId,
                   volunteer_type = ''camp_volunteer'', status_volunteers = Some ''active''\<rparr> of
             Inl e \<Rightarrow> (d, volunteerErrorToast (PostgrestError e))
           | Inr d1 \<Rightarrow> (d1, ToastSuccess ''Successfully registered as volunteer!'')))"

section \<open>Display helpers of the dashboards\<close>

text \<open>\<^verbatim>\<open>urgencyColor\<close> of NGODashboard.tsx (lines 122-129): a \<^verbatim>\<open>switch\<close> on the string.\<close>

definition urgencyColor_NGODashboard :: "string \<Rightarrow> string" where
  "urgencyColor_NGODashboard u =
     (if u = ''critical'' then ''destructive''
      else if u = ''high'' then ''warning''
      else if u = ''medium'' then ''default''
      else ''secondary'')"

text \<open>\<^verbatim>\<open>urgencyColor\<close> of CampDashboard.tsx (lines 151-158).\<close>

definition urgencyColor_CampDashboard :: "string \<Rightarrow> string" where
  "urgencyColor_CampDashboard u =
     (if u = ''critical'' then ''destructive''
      else if u = ''high'' then ''warning''
      else if u = ''medium'' then ''default''
      else ''secondary'')"

text \<open>UserDashboard: \<^verbatim>\<open>availableSeats\<close> (line 80), the badge of a camp card (lines 126-132)
  and the \<^verbatim>\<open>disabled\<close> attribute of the register button (line 154).\<close>

definition availableSeats :: "camps_row \<Rightarrow> int" where
  "availableSeats c = total_capacity c - occupied_seats c"

definition campBadge :: "camps_row \<Rightarrow> string" where
  "campBadge c = (if availableSeats c > 0 then ''Available'' else ''Full'')"

definition registerDisabled :: "camps_row \<Rightarrow> bool" where
  "registerDisabled c = (availableSeats c = 0)"

text \<open>A click on the register button of a camp card (lines 151-158): a disabled button
  does not call its handler.\<close>

definition registerButtonClick :: "db \<Rightarrow> uuid option \<Rightarrow> camps_row \<Rightarrow> db \<times> outcome" where
  "registerButtonClick d usr c =
     (if registerDisabled c then (d, NotRun) else handleVolunteer d usr (id_camps c))"

section \<open>An example database\<close>

text \<open>
  Two camps: Aluva, full, run by a camp administrator, and Kochi, run by a user whose
  profile now has the role ngo. A need for rice at Aluva and one for blankets at Kochi,
  each of 10 units, with the fulfilled quantity and the status left open.
\<close>

definition rice :: "int \<Rightarrow> string \<Rightarrow> camp_needs_row" where
  "rice f s = \<lparr>id_camp_needs = ''need-rice'', camp_id_camp_needs = ''camp-aluva'',
     item_name = ''Rice'', quantity_needed = 10, quantity_fulfilled = f,
     urgency = ''high'', status_camp_needs = s\<rparr>"

definition blankets :: "int \<Rightarrow> string \<Rightarrow> camp_needs_row" where
  "blankets f s = \<lparr>id_camp_needs = ''need-blankets'', camp_id_camp_needs = ''camp-kochi'',
     item_name = ''Blankets'', quantity_needed = 10, quantity_fulfilled = f,
     urgency = ''critical'', status_camp_needs = s\<rparr>"

definition aluva :: camps_row where
  "aluva = \<lparr>id_camps = ''camp-aluva'', camp_admin_id = ''admin-1'', name_camps = ''Aluva'',
     location_camps = ''Ernakulam'', total_capacity = 50, occupied_seats = 50,
     contact_phone = ''0484-1'', status_camps = ''active''\<rparr>"

definition kochi :: camps_row where
  "kochi = \<lparr>id_camps = ''camp-kochi'', camp_admin_id = ''ngo-3'', name_camps = ''Kochi'',
     location_camps = ''Ernakulam'', total_capacity = 80, occupied_seats = 20,
     contact_phone = ''0484-2'', status_camps = ''active''\<rparr>"

definition relief :: "camp_needs_row list \<Rightarrow> ngo_assistance_row list \<Rightarrow> db" where
  "relief ns ledger =
     \<lparr>profiles =
        [\<lparr>id_profiles = ''admin-1'', full_name = ''Asha'', phone = None, role = camp\<rparr>,
         \<lparr>id_profiles = ''ngo-1'', full_name = ''Binu'', phone = None, role = ngo\<rparr>,
         \<lparr>id_profiles = ''ngo-2'', full_name = ''Chitra'', phone = None, role = ngo\<rparr>,
         \<lparr>id_profiles = ''ngo-3'', full_name = ''Deepa'', phone = None, role = ngo\<rparr>,
         \<lparr>id_profiles = ''user-1'', full_name = ''Eby'', phone = None, role = user\<rparr>],
      camps = [aluva, kochi],
      camp_needs = ns,
      volunteers =
        [\<lparr>user_id = ''user-1'', camp_id_volunteers = Some ''camp-kochi'',
          volunteer_type = ''camp_volunteer'', status_volunteers = Some ''active''\<rparr>],
      ngo_assistance = ledger\<rparr>"

definition pledge_row :: "uuid \<Rightarrow> camp_needs_row \<Rightarrow> int \<Rightarrow> string \<Rightarrow> ngo_assistance_row" where
  "pledge_row uid need q s =
     \<lparr>ngo_id = uid, camp_id_ngo_assistance = camp_id_camp_needs need,
      need_id = Some (id_camp_needs need), items_provided = item_name need,
      quantity = q, delivery_status = Some s, notes_ngo_assistance = None\<rparr>"

section \<open>Facts about the operations\<close>

text \<open>The definitions a concrete run unfolds.\<close>

lemmas example_defs = relief_def rice_def blankets_def aluva_def kochi_def pledge_row_def
lemmas db_defs = int4_def is_ngo_def profile_exists_def camp_exists_def need_exists_def
  manages_need_def insert_ngo_assistance_def update_camp_needs_def insert_volunteers_def
  same_triple_def
lemmas pledge_defs = submitAssistForm_def quantityInputValid_def handleProvideAssistance_def
  newFulfilled_def newStatus_def pledgeAfterFetch_def fetchData_needs_def pledged_for_def

text \<open>The field texts of the examples, read once.\<close>

lemma text_1: "exactField ''1'' \<and> fieldInteger ''1'' = Some 1 \<and> parseInt ''1'' = Some 1"
  by code_simp

lemma text_3: "exactField ''3'' \<and> fieldInteger ''3'' = Some 3 \<and> parseInt ''3'' = Some 3"
  by code_simp

lemma text_4: "exactField ''4'' \<and> fieldInteger ''4'' = Some 4 \<and> parseInt ''4'' = Some 4"
  by code_simp

lemma text_5: "exactField ''5'' \<and> fieldInteger ''5'' = Some 5 \<and> parseInt ''5'' = Some 5"
  by code_simp

lemma text_6: "exactField ''6'' \<and> fieldInteger ''6'' = Some 6 \<and> parseInt ''6'' = Some 6"
  by code_simp

lemma text_minus_3:
  "exactField ''-3'' \<and> fieldInteger ''-3'' = Some (- 3) \<and> parseInt ''-3'' = Some (- 3)"
  by code_simp

lemma text_0_1e1:
  "exactField ''0.1e1'' \<and> fieldInteger ''0.1e1'' = Some 1 \<and> parseInt ''0.1e1'' = Some 0"
  by code_simp

lemma text_10e_1:
  "exactField ''10e-1'' \<and> fieldInteger ''10e-1'' = Some 1 \<and> parseInt ''10e-1'' = Some 10"
  by code_simp

lemmas text_facts = text_1 text_3 text_4 text_5 text_6 text_minus_3 text_0_1e1 text_10e_1

text \<open>A plain numeral of at most 15 digits is a text whose number \<^verbatim>\<open>parseInt\<close> reads.\<close>

lemma digit_not_sign: "is_digit c \<Longrightarrow> c \<noteq> CHR ''-'' \<and> c \<noteq> CHR ''+''"
  by (auto simp: is_digit_def digit_def)

lemma takeWhile_digits: "\<forall>c \<in> set ds. is_digit c \<Longrightarrow> takeWhile is_digit ds = ds"
  by (simp add: takeWhile_eq_all_conv)

lemma dropWhile_digits: "\<forall>c \<in> set ds. is_digit c \<Longrightarrow> dropWhile is_digit ds = []"
  by simp

lemma plain_numeral:
  assumes "ds \<noteq> []" and "\<forall>c \<in> set ds. is_digit c" and "length ds \<le> 15"
  shows "exactField ds \<and> fieldInteger ds = Some (int (digits_value ds))
     \<and> parseInt ds = Some (int (digits_value ds)) \<and> readsItsNumber ds"
proof -
  from assms(1,2) have hd: "hd ds \<noteq> CHR ''-''" "hd ds \<noteq> CHR ''+''"
    using digit_not_sign [of "hd ds"] by auto
  have fp: "floatParts ds = Some \<lparr>negative = False, int_digits = ds, frac_digits = [],
      exp_negative = False, exp_digits = []\<rparr>"
    using assms(1,2) hd
    by (simp add: floatParts_def Let_def takeWhile_digits dropWhile_digits del: dropWhile_eq_Nil_conv)
  have fi: "fieldInteger ds = Some (int (digits_value ds))"
    by (simp add: fieldInteger_def fp mantissa_def exponent10_def digits_value_def)
  have pi: "parseInt ds = Some (int (digits_value ds))"
    using assms(1,2) hd by (simp add: parseInt_def Let_def takeWhile_digits)
  have ex: "exactField ds"
    using assms(3) by (simp add: exactField_def fp)
  from fi pi ex show ?thesis by (simp add: readsItsNumber_def)
qed

text \<open>What a successful insert and a successful update have done.\<close>

lemma insert_NaN: "insert_ngo_assistance d uid (p\<lparr>ins_quantity := None\<rparr>) \<noteq> Inr d1"
  by (simp add: insert_ngo_assistance_def)

lemma insert_ngo_assistance_Inr:
  "insert_ngo_assistance d uid p = Inr d1 \<Longrightarrow>
     \<exists>q. ins_quantity p = Some q \<and> int4 q \<and> uid = ins_ngo_id p \<and> is_ngo d uid
       \<and> d1 = d\<lparr>ngo_assistance := ngo_assistance d @
             [\<lparr>ngo_id = ins_ngo_id p, camp_id_ngo_assistance = ins_camp_id p,
               need_id = Some (ins_need_id p), items_provided = ins_items_provided p,
               quantity = q, delivery_status = Some ''pledged'',
               notes_ngo_assistance = ins_notes p\<rparr>]\<rparr>"
  by (auto simp: insert_ngo_assistance_def split: if_splits option.splits)

lemma manages_need_ledger [simp]:
  "manages_need (d\<lparr>ngo_assistance := l\<rparr>) uid n = manages_need d uid n"
  by (simp add: manages_need_def)

lemma update_camp_needs_new:
  "update_camp_needs d uid nid (newFulfilled need q) (newStatus need q) =
     (if int4 (newFulfilled need q)
      then Inr (d\<lparr>camp_needs :=
             map (\<lambda>n. if id_camp_needs n = nid \<and> manages_need d uid n
                       then n\<lparr>quantity_fulfilled := newFulfilled need q,
                              status_camp_needs := newStatus need q\<rparr> else n)
                 (camp_needs d)\<rparr>)
      else Inl (NumericOutOfRange (newFulfilled need q)))"
  by (simp add: update_camp_needs_def newStatus_def)

text \<open>The ways a run of the handler can end.\<close>

lemma handleProvideAssistance_result:
  assumes "handleProvideAssistance d usr sel text nts = Some (d', out)"
  shows "(d' = d \<and> out \<noteq> ToastSuccess ''Assistance pledged successfully!'')
    \<or> (\<exists>need uid q. sel = Some need \<and> usr = Some uid \<and> parseInt text = Some q
          \<and> is_ngo d uid \<and> int4 q
          \<and> out = ToastSuccess ''Assistance pledged successfully!''
          \<and> ngo_assistance d' = ngo_assistance d @
               [\<lparr>ngo_id = uid, camp_id_ngo_assistance = camp_id_camp_needs need,
                 need_id = Some (id_camp_needs need), items_provided = item_name need,
                 quantity = q, delivery_status = Some ''pledged'',
                 notes_ngo_assistance = nts\<rparr>]
          \<and> profiles d' = profiles d \<and> camps d' = camps d \<and> volunteers d' = volunteers d
          \<and> camp_needs d' =
               (if int4 (newFulfilled need q)
                then map (\<lambda>n. if id_camp_needs n = id_camp_needs need \<and> manages_need d uid n
                               then n\<lparr>quantity_fulfilled := newFulfilled need q,
                                      status_camp_needs := newStatus need q\<rparr>
                               else n) (camp_needs d)
                else camp_needs d))"
proof (cases sel)
  case None
  with assms show ?thesis by (simp add: handleProvideAssistance_def)
next
  case (Some need)
  note sel = this
  with assms have ex: "exactField text"
    by (simp add: handleProvideAssistance_def split: if_splits)
  show ?thesis
  proof (cases usr)
    case None
    with assms sel ex show ?thesis by (auto simp: handleProvideAssistance_def)
  next
    case (Some uid)
    let ?p = "\<lparr>ins_ngo_id = uid, ins_camp_id = camp_id_camp_needs need,
                ins_need_id = id_camp_needs need, ins_items_provided = item_name need,
                ins_quantity = parseInt text, ins_notes = nts\<rparr>"
    show ?thesis
    proof (cases "insert_ngo_assistance d uid ?p")
      case (Inl e)
      with assms sel Some ex show ?thesis
        by (auto simp: handleProvideAssistance_def)
    next
      case (Inr d1)
      from insert_ngo_assistance_Inr [OF Inr] obtain q where q: "parseInt text = Some q"
        and q4: "int4 q" and ngo: "is_ngo d uid"
        and d1: "d1 = d\<lparr>ngo_assistance := ngo_assistance d @
             [\<lparr>ngo_id = uid, camp_id_ngo_assistance = camp_id_camp_needs need,
               need_id = Some (id_camp_needs need), items_provided = item_name need,
               quantity = q, delivery_status = Some ''pledged'',
               notes_ngo_assistance = nts\<rparr>]\<rparr>"
        by auto
      from assms sel Some ex Inr q
      have out: "out = ToastSuccess ''Assistance pledged successfully!''"
        and d': "d' = (case update_camp_needs d1 uid (id_camp_needs need)
                         (newFulfilled need q) (newStatus need q) of
                     Inl e \<Rightarrow> d1 | Inr d2 \<Rightarrow> d2)"
        by (auto simp: handleProvideAssistance_def split: sum.splits)
      from d' d1 have "ngo_assistance d' = ngo_assistance d @
             [\<lparr>ngo_id = uid, camp_id_ngo_assistance = camp_id_camp_needs need,
               need_id = Some (id_camp_needs need), items_provided = item_name need,
               quantity = q, delivery_status = Some ''pledged'',
               notes_ngo_assistance = nts\<rparr>]"
        and "profiles d' = profiles d" and "camps d' = camps d"
        and "volunteers d' = volunteers d"
        and "camp_needs d' =
               (if int4 (newFulfilled need q)
                then map (\<lambda>n. if id_camp_needs n = id_camp_needs need \<and> manages_need d uid n
                               then n\<lparr>quantity_fulfilled := newFulfilled need q,
                                      status_camp_needs := newStatus need q\<rparr>
                               else n) (camp_needs d)
                else camp_needs d)"
        by (simp_all add: update_camp_needs_new)
      with sel Some q q4 ngo out show ?thesis by simp
    qed
  qed
qed

section \<open>The claims\<close>

text \<open>
  C1 (as amended). Take a submission of the form whose quantity field is a text that
  \<^verbatim>\<open>parseInt\<close> reads as the number the browser validates (every plain numeral is one).
  If the quantity exceeds the remaining need of the snapshot the form was opened on (its
  quantity_needed minus its quantity_fulfilled), the form stops the submission: the
  handler does not run and nothing changes. From a snapshot whose need is already met,
  such as Need{needed=10, fulfilled=10}, no text at all can be submitted. And whatever the
  submission writes to a need stays within the snapshot's quantity_needed.
\<close>

theorem over_snapshot_blocked_by_form:
  assumes run: "submitAssistForm d usr (Some need) text nts = Some (d', out)"
    and reads: "readsItsNumber text"
  shows "(\<forall>q. parseInt text = Some q \<and> q > quantity_needed need - quantity_fulfilled need
            \<longrightarrow> d' = d \<and> out = NotRun)
     \<and> (quantity_fulfilled need \<ge> quantity_needed need \<longrightarrow> d' = d \<and> out = NotRun)
     \<and> (\<forall>n \<in> set (camp_needs d').
           n \<in> set (camp_needs d) \<or> quantity_fulfilled n \<le> quantity_needed need)"
proof (cases "quantityInputValid need text")
  case False
  with run show ?thesis by (simp add: submitAssistForm_def split: if_splits)
next
  case True
  then obtain v where v: "fieldInteger text = Some v" and lo: "1 \<le> v"
    and hi: "v \<le> quantity_needed need - quantity_fulfilled need"
    by (auto simp: quantityInputValid_def split: option.splits)
  from reads v have q: "parseInt text = Some v" by (simp add: readsItsNumber_def)
  from run True have h: "handleProvideAssistance d usr (Some need) text nts = Some (d', out)"
    by (simp add: submitAssistForm_def split: if_splits)
  from hi have bound: "newFulfilled need v \<le> quantity_needed need"
    by (simp add: newFulfilled_def)
  from handleProvideAssistance_result [OF h] q bound
  have "\<forall>n \<in> set (camp_needs d').
          n \<in> set (camp_needs d) \<or> quantity_fulfilled n \<le> quantity_needed need"
    by (auto split: if_splits)
  with q lo hi show ?thesis by auto
qed

theorem over_snapshot_blocked_by_form_witness:
  "readsItsNumber ''5''
   \<and> submitAssistForm (relief [rice 6 ''partial''] []) (Some ''ngo-1'')
        (Some (rice 6 ''partial'')) ''5'' None = Some (relief [rice 6 ''partial''] [], NotRun)
   \<and> submitAssistForm (relief [rice 10 ''fulfilled''] []) (Some ''ngo-1'')
        (Some (rice 10 ''fulfilled'')) ''1'' None = Some (relief [rice 10 ''fulfilled''] [], NotRun)"
proof -
  have r5: "readsItsNumber ''5''" and r1: "readsItsNumber ''1''"
    by (simp_all add: readsItsNumber_def text_facts)
  have run5: "submitAssistForm (relief [rice 6 ''partial''] []) (Some ''ngo-1'')
        (Some (rice 6 ''partial'')) ''5'' None = Some (relief [rice 6 ''partial''] [], NotRun)"
    by (simp add: submitAssistForm_def quantityInputValid_def text_facts rice_def)
  have run1: "submitAssistForm (relief [rice 10 ''fulfilled''] []) (Some ''ngo-1'')
        (Some (rice 10 ''fulfilled'')) ''1'' None = Some (relief [rice 10 ''fulfilled''] [], NotRun)"
    by (simp add: submitAssistForm_def quantityInputValid_def text_facts rice_def)
  from over_snapshot_blocked_by_form [OF run5 r5] over_snapshot_blocked_by_form [OF run1 r1]
    r5 run5 run1
  show ?thesis by simp
qed

text \<open>
  The claim as stated fails: the stored need is at 10 of 10, so nothing remains; a session
  whose snapshot still shows 6 of 10 pledges 1, and the pledge is accepted and recorded.
\<close>

theorem stale_snapshot_overcommit_accepted:
  "quantity_needed (rice 10 ''fulfilled'') - quantity_fulfilled (rice 10 ''fulfilled'') = 0
   \<and> map_option snd (submitAssistForm (relief [rice 10 ''fulfilled''] []) (Some ''ngo-1'')
            (Some (rice 6 ''partial'')) ''1'' None)
       = Some (ToastSuccess ''Assistance pledged successfully!'')
   \<and> map_option (ngo_assistance \<circ> fst)
         (submitAssistForm (relief [rice 10 ''fulfilled''] []) (Some ''ngo-1'')
            (Some (rice 6 ''partial'')) ''1'' None)
       = Some [pledge_row ''ngo-1'' (rice 10 ''fulfilled'') 1 ''pledged'']"
  by (simp add: pledge_defs db_defs example_defs text_facts)

text \<open>
  C2 (as amended). A pledge that ends in the success toast has appended exactly one ledger
  entry, with delivery_status pledged and the quantity \<^verbatim>\<open>parseInt\<close> read, and has left
  profiles, camps and volunteers alone. Among the needs, every row of another need is as
  it was; every row of the selected need that the pledger may update (the policy: the
  administrator of its active camp) is overwritten with the snapshot's quantity_fulfilled
  plus the quantity, and with the status computed from that sum, provided the sum fits
  the column; when it does not fit, the update fails unnoticed and the needs stay as they
  were beside the new ledger entry. A run that ends in anything else has changed nothing.
\<close>

theorem pledge_effects:
  assumes run: "handleProvideAssistance d usr sel text nts = Some (d', out)"
  shows "(out = ToastSuccess ''Assistance pledged successfully!'' \<longrightarrow>
            (\<exists>need uid q. sel = Some need \<and> usr = Some uid \<and> parseInt text = Some q
               \<and> ngo_assistance d' = ngo_assistance d @
                    [\<lparr>ngo_id = uid, camp_id_ngo_assistance = camp_id_camp_needs need,
                      need_id = Some (id_camp_needs need), items_provided = item_name need,
                      quantity = q, delivery_status = Some ''pledged'',
                      notes_ngo_assistance = nts\<rparr>]
               \<and> profiles d' = profiles d \<and> camps d' = camps d \<and> volunteers d' = volunteers d
               \<and> length (camp_needs d') = length (camp_needs d)
               \<and> (\<forall>i < length (camp_needs d).
                     (id_camp_needs (camp_needs d ! i) \<noteq> id_camp_needs need
                        \<longrightarrow> camp_needs d' ! i = camp_needs d ! i)
                   \<and> (id_camp_needs (camp_needs d ! i) = id_camp_needs need
                        \<and> manages_need d uid (camp_needs d ! i)
                        \<and> int4 (quantity_fulfilled need + q)
                        \<longrightarrow> camp_needs d' ! i = (camp_needs d ! i)
                              \<lparr>quantity_fulfilled := quantity_fulfilled need + q,
                               status_camp_needs := newStatus need q\<rparr>)
                   \<and> (\<not> int4 (quantity_fulfilled need + q)
                        \<longrightarrow> camp_needs d' ! i = camp_needs d ! i))))
         \<and> (out \<noteq> ToastSuccess ''Assistance pledged successfully!'' \<longrightarrow> d' = d)"
  using handleProvideAssistance_result [OF run] by (auto simp: newFulfilled_def)

theorem pledge_effects_witness:
  \<open>handleProvideAssistance (relief [blankets 0 ''pending''] []) (Some ''ngo-3'')
       (Some (blankets 0 ''pending'')) ''6'' None
     = Some (relief [blankets 6 ''partial'']
               [pledge_row ''ngo-3'' (blankets 0 ''pending'') 6 ''pledged''],
             ToastSuccess ''Assistance pledged successfully!'')
   \<and> handleProvideAssistance (relief [blankets 0 ''pending''] []) (Some ''user-1'')
       (Some (blankets 0 ''pending'')) ''6'' None
     = Some (relief [blankets 0 ''pending''] [],
             ToastError ''new row violates row-level security policy for table "ngo_assistance"'')\<close>
proof -
  have run: "handleProvideAssistance (relief [blankets 0 ''pending''] []) (Some ''ngo-3'')
       (Some (blankets 0 ''pending'')) ''6'' None
     = Some (relief [blankets 6 ''partial'']
               [pledge_row ''ngo-3'' (blankets 0 ''pending'') 6 ''pledged''],
             ToastSuccess ''Assistance pledged successfully!'')"
    by (simp add: pledge_defs db_defs example_defs text_facts)
  have run2: \<open>handleProvideAssistance (relief [blankets 0 ''pending''] []) (Some ''user-1'')
       (Some (blankets 0 ''pending'')) ''6'' None
     = Some (relief [blankets 0 ''pending''] [],
             ToastError ''new row violates row-level security policy for table "ngo_assistance"'')\<close>
    by (simp add: pledge_defs db_defs example_defs text_facts)
  from pledge_effects [OF run] pledge_effects [OF run2] run run2 show ?thesis by simp
qed

text \<open>
  The claim as stated fails: from a snapshot that shows 5 of 10 while the stored need is
  at 9, a pledge of 3 succeeds, the ledger gains the entry, and the need is set to 8, not
  raised by 3.
\<close>

theorem pledge_overwrites_need_from_snapshot:
  "submitAssistForm (relief [blankets 9 ''partial''] []) (Some ''ngo-3'')
      (Some (blankets 5 ''partial'')) ''3'' None
     = Some (relief [blankets 8 ''partial'']
               [pledge_row ''ngo-3'' (blankets 9 ''partial'') 3 ''pledged''],
             ToastSuccess ''Assistance pledged successfully!'')"
  by (simp add: pledge_defs db_defs example_defs text_facts)





text \<open>A need picked after a read is a stored row, and the primary key makes it the only
  row of its id; who manages a need depends on the camps and on the need's camp only.\<close>

lemma find_need_Some:
  "find (\<lambda>n. id_camp_needs n = nid) (fetchData_needs d) = Some need \<Longrightarrow>
     need \<in> set (camp_needs d) \<and> id_camp_needs need = nid"
  by (auto simp: find_Some_iff fetchData_needs_def dest: nth_mem)

lemma same_id_same_row:
  "distinct (map id_camp_needs ns) \<Longrightarrow> n \<in> set ns \<Longrightarrow> m \<in> set ns \<Longrightarrow>
     id_camp_needs n = id_camp_needs m \<Longrightarrow> n = m"
  by (auto simp: distinct_map dest: inj_onD)

lemma manages_need_same:
  "camps d' = camps d \<Longrightarrow> camp_id_camp_needs m = camp_id_camp_needs n \<Longrightarrow>
     manages_need d' uid m = manages_need d uid n"
  by (simp add: manages_need_def)

lemma pledged_for_append:
  "ngo_assistance d' = ngo_assistance d @ [a] \<Longrightarrow>
     pledged_for d' nid = pledged_for d nid + (if need_id a = Some nid then quantity a else 0)"
  by (simp add: pledged_for_def)

text \<open>
  What the sequence keeps true of one need \<open>n\<close> of the first database \<open>d0\<close>: its row is
  there under the same id, camp and quantity_needed, and its quantity_fulfilled has risen
  by exactly what the ledger has gained for it, without passing quantity_needed.
\<close>

lemma pledgeAfterFetch_keeps:
  assumes run: "pledgeAfterFetch d usr nid text nts = Some (d', out)"
    and pk: "distinct (map id_camp_needs (camp_needs d))"
    and cs: "camps d = camps d0"
    and m: "m \<in> set (camp_needs d)" "id_camp_needs m = id_camp_needs n"
      "camp_id_camp_needs m = camp_id_camp_needs n" "quantity_needed m = quantity_needed n"
      "quantity_fulfilled m = quantity_fulfilled n + (pledged_for d (id_camp_needs n) - p0)"
      "quantity_fulfilled n \<le> quantity_fulfilled m" "quantity_fulfilled m \<le> quantity_needed n"
    and r4: "int4 (quantity_needed n)" "int4 (quantity_fulfilled n)"
    and adm: "nid = id_camp_needs n \<longrightarrow>
                readsItsNumber text \<and> (\<forall>uid. usr = Some uid \<longrightarrow> manages_need d0 uid n)"
  shows "distinct (map id_camp_needs (camp_needs d')) \<and> camps d' = camps d0
     \<and> (\<exists>m' \<in> set (camp_needs d'). id_camp_needs m' = id_camp_needs n
           \<and> camp_id_camp_needs m' = camp_id_camp_needs n
           \<and> quantity_needed m' = quantity_needed n
           \<and> quantity_fulfilled m' = quantity_fulfilled n + (pledged_for d' (id_camp_needs n) - p0)
           \<and> quantity_fulfilled n \<le> quantity_fulfilled m'
           \<and> quantity_fulfilled m' \<le> quantity_needed n)"
proof -
  have same: ?thesis if "d' = d"
    using that pk cs m by auto
  show ?thesis
  proof (cases "find (\<lambda>n. id_camp_needs n = nid) (fetchData_needs d)")
    case None
    with run have "d' = d" by (simp add: pledgeAfterFetch_def submitAssistForm_def)
    then show ?thesis by (rule same)
  next
    case (Some need)
    note mem = find_need_Some [OF Some]
    from run Some have sub: "submitAssistForm d usr (Some need) text nts = Some (d', out)"
      by (simp add: pledgeAfterFetch_def)
    show ?thesis
    proof (cases "quantityInputValid need text")
      case False
      with sub have "d' = d" by (simp add: submitAssistForm_def split: if_splits)
      then show ?thesis by (rule same)
    next
      case True
      then obtain v where v: "fieldInteger text = Some v" and lo: "1 \<le> v"
        and hi: "v \<le> quantity_needed need - quantity_fulfilled need"
        by (auto simp: quantityInputValid_def split: option.splits)
      from sub True have h: "handleProvideAssistance d usr (Some need) text nts = Some (d', out)"
        by (simp add: submitAssistForm_def split: if_splits)
      from handleProvideAssistance_result [OF h]
      consider "d' = d"
        | uid q where "usr = Some uid" "parseInt text = Some q"
            "ngo_assistance d' = ngo_assistance d @
               [\<lparr>ngo_id = uid, camp_id_ngo_assistance = camp_id_camp_needs need,
                 need_id = Some (id_camp_needs need), items_provided = item_name need,
                 quantity = q, delivery_status = Some ''pledged'',
                 notes_ngo_assistance = nts\<rparr>]"
            "camps d' = camps d"
            "camp_needs d' =
               (if int4 (newFulfilled need q)
                then map (\<lambda>n. if id_camp_needs n = id_camp_needs need \<and> manages_need d uid n
                               then n\<lparr>quantity_fulfilled := newFulfilled need q,
                                      status_camp_needs := newStatus need q\<rparr>
                               else n) (camp_needs d)
                else camp_needs d)"
        by auto
      then show ?thesis
      proof cases
        case 1
        then show ?thesis by (rule same)
      next
        case 2
        let ?g = "\<lambda>n. if id_camp_needs n = id_camp_needs need \<and> manages_need d uid n
                       then n\<lparr>quantity_fulfilled := newFulfilled need q,
                              status_camp_needs := newStatus need q\<rparr>
                       else n"
        have ids: "map (id_camp_needs \<circ> ?g) (camp_needs d) = map id_camp_needs (camp_needs d)"
          by (intro map_cong) auto
        from 2(5) pk have pk': "distinct (map id_camp_needs (camp_needs d'))"
          by (simp add: ids split: if_splits)
        from 2(4) cs have cs': "camps d' = camps d0" by simp
        show ?thesis
        proof (cases "nid = id_camp_needs n")
          case False
          with mem have other: "id_camp_needs need \<noteq> id_camp_needs n" by simp
          from pledged_for_append [OF 2(3), of "id_camp_needs n"] other
          have pf: "pledged_for d' (id_camp_needs n) = pledged_for d (id_camp_needs n)"
            by simp
          from other m(2) have gm: "?g m = m" by simp
          from m(1) have "?g m \<in> ?g ` set (camp_needs d)" by (rule imageI)
          then have "m \<in> ?g ` set (camp_needs d)" unfolding gm .
          with 2(5) m(1) have "m \<in> set (camp_needs d')" by (simp split: if_splits)
          with m pf pk' cs' show ?thesis by auto
        next
          case True
          with mem m(1,2) pk have nm: "need = m" by (auto intro: same_id_same_row)
          from True adm 2(1) have reads: "readsItsNumber text" and man: "manages_need d0 uid n"
            by auto
          from reads v 2(2) have qv: "q = v" by (simp add: readsItsNumber_def)
          from man manages_need_same [OF cs m(3), of uid] have man': "manages_need d uid m"
            by simp
          from hi lo qv nm m(6,7) have rng: "quantity_fulfilled n \<le> newFulfilled need q"
            "newFulfilled need q \<le> quantity_needed n"
            using m(4) by (simp_all add: newFulfilled_def)
          with r4 have i4: "int4 (newFulfilled need q)" by (simp add: int4_def)
          from pledged_for_append [OF 2(3), of "id_camp_needs n"] nm m(2)
          have pf: "pledged_for d' (id_camp_needs n) = pledged_for d (id_camp_needs n) + q"
            by simp
          let ?m' = "m\<lparr>quantity_fulfilled := newFulfilled need q,
                        status_camp_needs := newStatus need q\<rparr>"
          from nm man' have gm: "?g m = ?m'" by simp
          from m(1) have "?g m \<in> ?g ` set (camp_needs d)" by (rule imageI)
          then have "?m' \<in> ?g ` set (camp_needs d)" unfolding gm .
          with 2(5) i4 have in': "?m' \<in> set (camp_needs d')" by simp
          have "quantity_fulfilled ?m'
                  = quantity_fulfilled n + (pledged_for d' (id_camp_needs n) - p0)"
            using pf m(5) nm by (simp add: newFulfilled_def)
          with in' rng m(2,3,4) pk' cs' show ?thesis
            by (intro conjI bexI [of _ ?m']) simp_all
        qed
      qed
    qed
  qed
qed

text \<open>
  C4 (as amended). Take pledges made one after the other, each on a need as just read and
  through the form. For a need whose pledges come from pledgers who may update it (the
  policy: the administrator of its active camp) and from field texts that \<^verbatim>\<open>parseInt\<close>
  reads as the number the browser validates, the quantities committed to the need never
  add up to more than what remained of it, and its quantity_fulfilled rises by exactly
  their sum: after Pledge(6) on Need{needed=10, fulfilled=0} a second Pledge(6) is stopped
  by the form, Pledge(4) fills the need, and the fulfilled need is no longer offered.
\<close>

theorem fetched_pledges_stay_within_need:
  assumes run: "pledgesAfterFetch d ps = Some d'"
    and pk: "distinct (map id_camp_needs (camp_needs d))"
    and n: "n \<in> set (camp_needs d)"
    and r4: "int4 (quantity_needed n)" "int4 (quantity_fulfilled n)"
    and le: "quantity_fulfilled n \<le> quantity_needed n"
    and adm: "\<forall>(usr, nid, text, nts) \<in> set ps.
                nid = id_camp_needs n \<longrightarrow>
                  readsItsNumber text \<and> (\<forall>uid. usr = Some uid \<longrightarrow> manages_need d uid n)"
  shows "pledged_for d' (id_camp_needs n) - pledged_for d (id_camp_needs n)
           \<le> quantity_needed n - quantity_fulfilled n
     \<and> (\<exists>m \<in> set (camp_needs d'). id_camp_needs m = id_camp_needs n
           \<and> quantity_needed m = quantity_needed n
           \<and> quantity_fulfilled m
               = quantity_fulfilled n
                   + (pledged_for d' (id_camp_needs n) - pledged_for d (id_camp_needs n)))"
proof -
  define p0 where "p0 = pledged_for d (id_camp_needs n)"
  have keep: "\<exists>m' \<in> set (camp_needs e'). id_camp_needs m' = id_camp_needs n
           \<and> quantity_needed m' = quantity_needed n
           \<and> quantity_fulfilled m' = quantity_fulfilled n + (pledged_for e' (id_camp_needs n) - p0)
           \<and> quantity_fulfilled m' \<le> quantity_needed n"
    if "pledgesAfterFetch e qs = Some e'"
      and "distinct (map id_camp_needs (camp_needs e))" and "camps e = camps d"
      and "\<exists>m \<in> set (camp_needs e). id_camp_needs m = id_camp_needs n
           \<and> camp_id_camp_needs m = camp_id_camp_needs n
           \<and> quantity_needed m = quantity_needed n
           \<and> quantity_fulfilled m = quantity_fulfilled n + (pledged_for e (id_camp_needs n) - p0)
           \<and> quantity_fulfilled n \<le> quantity_fulfilled m
           \<and> quantity_fulfilled m \<le> quantity_needed n"
      and "\<forall>(usr, nid, text, nts) \<in> set qs.
                nid = id_camp_needs n \<longrightarrow>
                  readsItsNumber text \<and> (\<forall>uid. usr = Some uid \<longrightarrow> manages_need d uid n)"
    for e e' qs
    using that
  proof (induction qs arbitrary: e)
    case Nil
    then show ?case by auto
  next
    case (Cons p qs)
    obtain usr nid tx nts where p: "p = (usr, nid, tx, nts)" by (cases p)
    from Cons.prems(1) p obtain e1 out
      where step: "pledgeAfterFetch e usr nid tx nts = Some (e1, out)"
        and rest: "pledgesAfterFetch e1 qs = Some e'"
      by (auto split: option.splits)
    from Cons.prems(4) obtain m where m: "m \<in> set (camp_needs e)"
      "id_camp_needs m = id_camp_needs n" "camp_id_camp_needs m = camp_id_camp_needs n"
      "quantity_needed m = quantity_needed n"
      "quantity_fulfilled m = quantity_fulfilled n + (pledged_for e (id_camp_needs n) - p0)"
      "quantity_fulfilled n \<le> quantity_fulfilled m" "quantity_fulfilled m \<le> quantity_needed n"
      by auto
    from Cons.prems(5) p
    have adm1: "nid = id_camp_needs n \<longrightarrow>
                readsItsNumber tx \<and> (\<forall>uid. usr = Some uid \<longrightarrow> manages_need d uid n)"
      and admr: "\<forall>(usr, nid, text, nts) \<in> set qs.
                nid = id_camp_needs n \<longrightarrow>
                  readsItsNumber text \<and> (\<forall>uid. usr = Some uid \<longrightarrow> manages_need d uid n)"
      by auto
    from pledgeAfterFetch_keeps [OF step Cons.prems(2,3) m r4 adm1]
    have "distinct (map id_camp_needs (camp_needs e1))" "camps e1 = camps d"
      "\<exists>m' \<in> set (camp_needs e1). id_camp_needs m' = id_camp_needs n
           \<and> camp_id_camp_needs m' = camp_id_camp_needs n
           \<and> quantity_needed m' = quantity_needed n
           \<and> quantity_fulfilled m' = quantity_fulfilled n + (pledged_for e1 (id_camp_needs n) - p0)
           \<and> quantity_fulfilled n \<le> quantity_fulfilled m'
           \<and> quantity_fulfilled m' \<le> quantity_needed n"
      by auto
    from Cons.IH [OF rest this admr] show ?case .
  qed
  from n le have start: "\<exists>m \<in> set (camp_needs d). id_camp_needs m = id_camp_needs n
           \<and> camp_id_camp_needs m = camp_id_camp_needs n
           \<and> quantity_needed m = quantity_needed n
           \<and> quantity_fulfilled m = quantity_fulfilled n + (pledged_for d (id_camp_needs n) - p0)
           \<and> quantity_fulfilled n \<le> quantity_fulfilled m
           \<and> quantity_fulfilled m \<le> quantity_needed n"
    by (auto simp: p0_def)
  from keep [OF run pk refl start adm] show ?thesis
    by (auto simp: p0_def)
qed

theorem fetched_pledges_stay_within_need_witness:
  "pledgesAfterFetch (relief [blankets 0 ''pending''] [])
      [(Some ''ngo-3'', ''need-blankets'', ''6'', None),
       (Some ''ngo-3'', ''need-blankets'', ''6'', None),
       (Some ''ngo-3'', ''need-blankets'', ''4'', None),
       (Some ''ngo-3'', ''need-blankets'', ''1'', None)]
     = Some (relief [blankets 10 ''fulfilled'']
               [pledge_row ''ngo-3'' (blankets 0 ''pending'') 6 ''pledged'',
                pledge_row ''ngo-3'' (blankets 0 ''pending'') 4 ''pledged''])
   \<and> pledged_for (relief [blankets 10 ''fulfilled'']
               [pledge_row ''ngo-3'' (blankets 0 ''pending'') 6 ''pledged'',
                pledge_row ''ngo-3'' (blankets 0 ''pending'') 4 ''pledged'']) ''need-blankets''
       = 10"
proof -
  let ?d = "relief [blankets 0 ''pending''] []"
  let ?ps = "[(Some ''ngo-3'', ''need-blankets'', ''6'', None),
       (Some ''ngo-3'', ''need-blankets'', ''6'', None),
       (Some ''ngo-3'', ''need-blankets'', ''4'', None),
       (Some ''ngo-3'', ''need-blankets'', ''1'', None)]"
  let ?d' = "relief [blankets 10 ''fulfilled'']
               [pledge_row ''ngo-3'' (blankets 0 ''pending'') 6 ''pledged'',
                pledge_row ''ngo-3'' (blankets 0 ''pending'') 4 ''pledged'']"
  have run: "pledgesAfterFetch ?d ?ps = Some ?d'"
    by (simp add: pledge_defs db_defs example_defs text_facts)
  have pk: "distinct (map id_camp_needs (camp_needs ?d))" by (simp add: example_defs)
  have n: "blankets 0 ''pending'' \<in> set (camp_needs ?d)" by (simp add: example_defs)
  have r4: "int4 (quantity_needed (blankets 0 ''pending''))"
    "int4 (quantity_fulfilled (blankets 0 ''pending''))"
    by (simp_all add: blankets_def int4_def)
  have le: "quantity_fulfilled (blankets 0 ''pending'') \<le> quantity_needed (blankets 0 ''pending'')"
    by (simp add: blankets_def)
  have adm: "\<forall>(usr, nid, text, nts) \<in> set ?ps.
                nid = id_camp_needs (blankets 0 ''pending'') \<longrightarrow>
                  readsItsNumber text
                  \<and> (\<forall>uid. usr = Some uid \<longrightarrow> manages_need ?d uid (blankets 0 ''pending''))"
    by (simp add: readsItsNumber_def text_facts manages_need_def example_defs)
  from fetched_pledges_stay_within_need [OF run pk n r4 le adm] run
  show ?thesis by (simp add: pledged_for_def example_defs)
qed

text \<open>
  The claim as stated fails: two sessions that both read Need{needed=10, fulfilled=0} and
  then pledge 6 each are both accepted, and the ledger holds 12 for the need.
\<close>

theorem two_pledges_from_one_snapshot_both_accepted:
  "submitAssistForm (relief [rice 0 ''pending''] []) (Some ''ngo-1'')
          (Some (rice 0 ''pending'')) ''6'' None
     = Some (relief [rice 0 ''pending''] [pledge_row ''ngo-1'' (rice 0 ''pending'') 6 ''pledged''],
             ToastSuccess ''Assistance pledged successfully!'')
   \<and> map_option snd (submitAssistForm
          (relief [rice 0 ''pending''] [pledge_row ''ngo-1'' (rice 0 ''pending'') 6 ''pledged''])
          (Some ''ngo-2'') (Some (rice 0 ''pending'')) ''6'' None)
       = Some (ToastSuccess ''Assistance pledged successfully!'')
   \<and> map_option (\<lambda>r. pledged_for (fst r) ''need-rice'') (submitAssistForm
          (relief [rice 0 ''pending''] [pledge_row ''ngo-1'' (rice 0 ''pending'') 6 ''pledged''])
          (Some ''ngo-2'') (Some (rice 0 ''pending'')) ''6'' None)
       = Some 12"
  by (simp add: pledge_defs db_defs example_defs text_facts)

text \<open>No run of handleVolunteer changes the camps table.\<close>

lemma handleVolunteer_camps: "camps (fst (handleVolunteer d usr campId)) = camps d"
  by (auto simp: handleVolunteer_def insert_volunteers_def split: option.splits sum.splits if_splits)

text \<open>
  C5 (as amended). On a camp card that shows as many occupied seats as the camp's capacity
  the register button is disabled, so the request is not made: nothing is written. And no
  click, on any card, changes a camp's occupied_seats or total_capacity.
\<close>

theorem full_camp_request_not_made:
  "(occupied_seats c = total_capacity c \<longrightarrow> registerButtonClick d usr c = (d, NotRun))
   \<and> camps (fst (registerButtonClick d usr c)) = camps d"
  by (simp add: registerButtonClick_def registerDisabled_def availableSeats_def handleVolunteer_camps)

theorem full_camp_request_not_made_witness:
  "occupied_seats aluva = 50 \<and> total_capacity aluva = 50
   \<and> registerButtonClick (relief [] []) (Some ''user-1'') aluva = (relief [] [], NotRun)"
  using full_camp_request_not_made [of aluva "relief [] []" "Some ''user-1''"]
  by (simp add: aluva_def)

text \<open>
  The claim as stated fails: Aluva is full (50 of 50), a card read while one seat was free
  still offers the button, and the registration it sends is accepted.
\<close>

theorem stale_card_registers_at_full_camp:
  "occupied_seats aluva = total_capacity aluva
   \<and> camps (relief [] []) = [aluva, kochi]
   \<and> registerButtonClick (relief [] []) (Some ''user-1'') (aluva\<lparr>occupied_seats := 49\<rparr>)
       = ((relief [] [])\<lparr>volunteers := volunteers (relief [] []) @
             [\<lparr>user_id = ''user-1'', camp_id_volunteers = Some ''camp-aluva'',
               volunteer_type = ''camp_volunteer'', status_volunteers = Some ''active''\<rparr>]\<rparr>,
          ToastSuccess ''Successfully registered as volunteer!'')"
  by (simp add: registerButtonClick_def registerDisabled_def availableSeats_def
      handleVolunteer_def db_defs example_defs)

text \<open>What an update of one column does to a row.\<close>

lemma patched_noChange: "patched noChange r = r"
  by (cases r) (simp add: patched_def changed_def noChange_def)

lemma patched_delivery_status:
  "patched (noChange\<lparr>set_delivery_status := Set v\<rparr>) r = r\<lparr>delivery_status := v\<rparr>"
  by (cases r) (simp add: patched_def changed_def noChange_def)

lemma patched_quantity: "patched (noChange\<lparr>set_quantity := Set q\<rparr>) r = r\<lparr>quantity := q\<rparr>"
  by (cases r) (simp add: patched_def changed_def noChange_def)

lemma patched_items:
  "patched (noChange\<lparr>set_items_provided := Set s\<rparr>) r = r\<lparr>items_provided := s\<rparr>"
  by (cases r) (simp add: patched_def changed_def noChange_def)

lemma patched_notes:
  "patched (noChange\<lparr>set_notes := Set t\<rparr>) r = r\<lparr>notes_ngo_assistance := t\<rparr>"
  by (cases r) (simp add: patched_def changed_def noChange_def)

lemma patched_ngo_id: "patched (noChange\<lparr>set_ngo_id := Set u\<rparr>) r = r\<lparr>ngo_id := u\<rparr>"
  by (cases r) (simp add: patched_def changed_def noChange_def)

lemma patched_camp_id:
  "patched (noChange\<lparr>set_camp_id := Set c\<rparr>) r = r\<lparr>camp_id_ngo_assistance := c\<rparr>"
  by (cases r) (simp add: patched_def changed_def noChange_def)

lemma patched_need_id:
  "patched (noChange\<lparr>set_need_id := Set m\<rparr>) r = r\<lparr>need_id := m\<rparr>"
  by (cases r) (simp add: patched_def changed_def noChange_def)

lemma noChange_quantity: "set_quantity noChange = Keep"
  by (simp add: noChange_def)

lemmas patched_one = patched_delivery_status patched_quantity patched_items patched_notes
  patched_ngo_id patched_camp_id patched_need_id

text \<open>
  C6 (as amended). For every ledger entry and every requested delivery_status: an update by
  the entry's own NGO is accepted exactly when the requested value is pledged, in_transit,
  delivered or null, whatever the current value; any other value is refused by the
  column's check; an update by another user changes nothing. Of the other fields, the
  entry's NGO cannot change ngo_id, and can change quantity (to any integer of the column's
  range), items_provided and notes, and camp_id and need_id to an existing camp and need.
\<close>

theorem delivery_status_any_of_three_or_null:
  assumes i: "i < length (ngo_assistance d)" and own: "ngo_id (ngo_assistance d ! i) = uid"
  shows "(v \<in> set [None, Some ''pledged'', Some ''in_transit'', Some ''delivered''] \<longrightarrow>
            update_ngo_assistance d uid i (noChange\<lparr>set_delivery_status := Set v\<rparr>)
              = Inr (d\<lparr>ngo_assistance :=
                       (ngo_assistance d)[i := (ngo_assistance d ! i)\<lparr>delivery_status := v\<rparr>]\<rparr>))
     \<and> (v \<notin> set [None, Some ''pledged'', Some ''in_transit'', Some ''delivered''] \<longrightarrow>
            update_ngo_assistance d uid i (noChange\<lparr>set_delivery_status := Set v\<rparr>)
              = Inl (CheckViolation ''ngo_assistance'' ''ngo_assistance_delivery_status_check''))
     \<and> (other \<noteq> uid \<longrightarrow>
            update_ngo_assistance d other i (noChange\<lparr>set_delivery_status := Set v\<rparr>) = Inr d
            \<and> update_ngo_assistance d uid i (noChange\<lparr>set_ngo_id := Set other\<rparr>)
                = Inl (RlsViolation ''ngo_assistance''))
     \<and> (delivery_status (ngo_assistance d ! i)
            \<in> set [None, Some ''pledged'', Some ''in_transit'', Some ''delivered''] \<longrightarrow>
          (int4 q \<longrightarrow>
             update_ngo_assistance d uid i (noChange\<lparr>set_quantity := Set q\<rparr>)
               = Inr (d\<lparr>ngo_assistance :=
                        (ngo_assistance d)[i := (ngo_assistance d ! i)\<lparr>quantity := q\<rparr>]\<rparr>))
          \<and> update_ngo_assistance d uid i (noChange\<lparr>set_items_provided := Set s\<rparr>)
               = Inr (d\<lparr>ngo_assistance :=
                        (ngo_assistance d)[i := (ngo_assistance d ! i)\<lparr>items_provided := s\<rparr>]\<rparr>)
          \<and> update_ngo_assistance d uid i (noChange\<lparr>set_notes := Set t\<rparr>)
               = Inr (d\<lparr>ngo_assistance :=
                        (ngo_assistance d)[i := (ngo_assistance d ! i)\<lparr>notes_ngo_assistance := t\<rparr>]\<rparr>)
          \<and> (camp_exists d c \<longrightarrow>
               update_ngo_assistance d uid i (noChange\<lparr>set_camp_id := Set c\<rparr>)
                 = Inr (d\<lparr>ngo_assistance :=
                          (ngo_assistance d)[i := (ngo_assistance d ! i)
                             \<lparr>camp_id_ngo_assistance := c\<rparr>]\<rparr>))
          \<and> (need_exists d m \<longrightarrow>
               update_ngo_assistance d uid i (noChange\<lparr>set_need_id := Set (Some m)\<rparr>)
                 = Inr (d\<lparr>ngo_assistance :=
                          (ngo_assistance d)[i := (ngo_assistance d ! i)\<lparr>need_id := Some m\<rparr>]\<rparr>)))"
proof -
  note upd = update_ngo_assistance_def patched_one noChange_quantity
  have status_ok: "update_ngo_assistance d uid i (noChange\<lparr>set_delivery_status := Set v\<rparr>)
      = Inr (d\<lparr>ngo_assistance :=
               (ngo_assistance d)[i := (ngo_assistance d ! i)\<lparr>delivery_status := v\<rparr>]\<rparr>)"
    if "v \<in> set [None, Some ''pledged'', Some ''in_transit'', Some ''delivered'']"
    using that i own by (auto simp: upd split: option.splits)
  have status_bad: "update_ngo_assistance d uid i (noChange\<lparr>set_delivery_status := Set v\<rparr>)
      = Inl (CheckViolation ''ngo_assistance'' ''ngo_assistance_delivery_status_check'')"
    if "v \<notin> set [None, Some ''pledged'', Some ''in_transit'', Some ''delivered'']"
    using that i own by (cases v) (simp_all add: upd)
  have stranger: "update_ngo_assistance d other i (noChange\<lparr>set_delivery_status := Set v\<rparr>) = Inr d"
    if "other \<noteq> uid"
    using that own by (simp add: upd)
  have owner: "update_ngo_assistance d uid i (noChange\<lparr>set_ngo_id := Set other\<rparr>)
      = Inl (RlsViolation ''ngo_assistance'')"
    if "other \<noteq> uid"
    using that i own by (simp add: upd)
  have rest: "(int4 q \<longrightarrow>
             update_ngo_assistance d uid i (noChange\<lparr>set_quantity := Set q\<rparr>)
               = Inr (d\<lparr>ngo_assistance :=
                        (ngo_assistance d)[i := (ngo_assistance d ! i)\<lparr>quantity := q\<rparr>]\<rparr>))
          \<and> update_ngo_assistance d uid i (noChange\<lparr>set_items_provided := Set s\<rparr>)
               = Inr (d\<lparr>ngo_assistance :=
                        (ngo_assistance d)[i := (ngo_assistance d ! i)\<lparr>items_provided := s\<rparr>]\<rparr>)
          \<and> update_ngo_assistance d uid i (noChange\<lparr>set_notes := Set t\<rparr>)
               = Inr (d\<lparr>ngo_assistance :=
                        (ngo_assistance d)[i := (ngo_assistance d ! i)\<lparr>notes_ngo_assistance := t\<rparr>]\<rparr>)
          \<and> (camp_exists d c \<longrightarrow>
               update_ngo_assistance d uid i (noChange\<lparr>set_camp_id := Set c\<rparr>)
                 = Inr (d\<lparr>ngo_assistance :=
                          (ngo_assistance d)[i := (ngo_assistance d ! i)
                             \<lparr>camp_id_ngo_assistance := c\<rparr>]\<rparr>))
          \<and> (need_exists d m \<longrightarrow>
               update_ngo_assistance d uid i (noChange\<lparr>set_need_id := Set (Some m)\<rparr>)
                 = Inr (d\<lparr>ngo_assistance :=
                          (ngo_assistance d)[i := (ngo_assistance d ! i)\<lparr>need_id := Some m\<rparr>]\<rparr>))"
    if ok: "delivery_status (ngo_assistance d ! i)
            \<in> set [None, Some ''pledged'', Some ''in_transit'', Some ''delivered'']"
  proof -
    from ok have chk: "\<not> (case delivery_status (ngo_assistance d ! i) of
                 None \<Rightarrow> False
               | Some s \<Rightarrow> s \<notin> set [''pledged'', ''in_transit'', ''delivered''])"
      by (auto split: option.splits)
    have fk: "\<not> (case need_id (ngo_assistance d ! i) of
                 None \<Rightarrow> False
               | Some n \<Rightarrow> need_id (ngo_assistance d ! i) \<noteq> Some n \<and> \<not> need_exists d n)"
      by (simp split: option.splits)
    from i own chk fk show ?thesis by (simp add: upd)
  qed
  from status_ok status_bad stranger owner rest show ?thesis by blast
qed

theorem delivery_status_any_of_three_or_null_witness:
  "update_ngo_assistance
      (relief [rice 6 ''partial''] [pledge_row ''ngo-1'' (rice 0 ''pending'') 6 ''pledged''])
      ''ngo-1'' 0 (noChange\<lparr>set_delivery_status := Set (Some ''delivered'')\<rparr>)
     = Inr (relief [rice 6 ''partial''] [pledge_row ''ngo-1'' (rice 0 ''pending'') 6 ''delivered''])
   \<and> update_ngo_assistance
      (relief [rice 6 ''partial''] [pledge_row ''ngo-1'' (rice 0 ''pending'') 6 ''pledged''])
      ''ngo-1'' 0 (noChange\<lparr>set_delivery_status := Set (Some ''lost'')\<rparr>)
     = Inl (CheckViolation ''ngo_assistance'' ''ngo_assistance_delivery_status_check'')
   \<and> update_ngo_assistance
      (relief [rice 6 ''partial''] [pledge_row ''ngo-1'' (rice 0 ''pending'') 6 ''pledged''])
      ''ngo-2'' 0 (noChange\<lparr>set_delivery_status := Set (Some ''delivered'')\<rparr>)
     = Inr (relief [rice 6 ''partial''] [pledge_row ''ngo-1'' (rice 0 ''pending'') 6 ''pledged''])
   \<and> update_ngo_assistance
      (relief [rice 6 ''partial''] [pledge_row ''ngo-1'' (rice 0 ''pending'') 6 ''pledged''])
      ''ngo-1'' 0 (noChange\<lparr>set_quantity := Set 600\<rparr>)
     = Inr (relief [rice 6 ''partial''] [pledge_row ''ngo-1'' (rice 0 ''pending'') 600 ''pledged''])"
proof -
  let ?d = "relief [rice 6 ''partial''] [pledge_row ''ngo-1'' (rice 0 ''pending'') 6 ''pledged'']"
  have i: "0 < length (ngo_assistance ?d)" by (simp add: relief_def)
  have own: "ngo_id (ngo_assistance ?d ! 0) = ''ngo-1''" by (simp add: relief_def pledge_row_def)
  have ok: "delivery_status (ngo_assistance ?d ! 0)
      \<in> set [None, Some ''pledged'', Some ''in_transit'', Some ''delivered'']"
    by (simp add: relief_def pledge_row_def)
  have q: "int4 600" by (simp add: int4_def)
  from delivery_status_any_of_three_or_null [OF i own, of "Some ''delivered''" "''ngo-2''" 600]
    delivery_status_any_of_three_or_null [OF i own, of "Some ''lost''" "''ngo-2''" 600]
    ok q
  show ?thesis by (simp add: relief_def pledge_row_def)
qed

text \<open>
  The claim as stated fails: the backward change from delivered to pledged is accepted.
\<close>

theorem delivered_back_to_pledged_accepted:
  "update_ngo_assistance
      (relief [rice 6 ''partial''] [pledge_row ''ngo-1'' (rice 0 ''pending'') 6 ''delivered''])
      ''ngo-1'' 0 (noChange\<lparr>set_delivery_status := Set (Some ''pledged'')\<rparr>)
     = Inr (relief [rice 6 ''partial''] [pledge_row ''ngo-1'' (rice 0 ''pending'') 6 ''pledged''])"
  by (simp add: update_ngo_assistance_def patched_def changed_def noChange_def example_defs)

text \<open>
  C7 (as amended). An insert into volunteers for a camp (camp_id not null) whose
  (user_id, camp_id, volunteer_type) is already registered fails, and a successful one adds
  exactly the new row, whose triple was not there. For handleVolunteer: a second
  registration of the same user at the same camp ends in the error toast with the table
  unchanged; a first one, for a user with a profile and an existing camp, succeeds and adds
  one row, whatever other registrations exist.
\<close>

theorem duplicate_registration_rejected:
  "(camp_id_volunteers r \<noteq> None \<and> list_ex (same_triple r) (volunteers d)
        \<longrightarrow> (\<exists>e. insert_volunteers d uid r = Inl e))
   \<and> (camp_id_volunteers r \<noteq> None \<and> insert_volunteers d uid r = Inr d' \<longrightarrow>
        \<not> list_ex (same_triple r) (volunteers d) \<and> d' = d\<lparr>volunteers := volunteers d @ [r]\<rparr>)
   \<and> (list_ex (\<lambda>v. user_id v = uid \<and> camp_id_volunteers v = Some campId
                     \<and> volunteer_type v = ''camp_volunteer'') (volunteers d)
        \<longrightarrow> handleVolunteer d (Some uid) campId
              = (d, ToastError ''You're already registered for this camp''))
   \<and> (\<not> list_ex (\<lambda>v. user_id v = uid \<and> camp_id_volunteers v = Some campId
                       \<and> volunteer_type v = ''camp_volunteer'') (volunteers d)
        \<and> profile_exists d uid \<and> camp_exists d campId
        \<longrightarrow> handleVolunteer d (Some uid) campId
              = (d\<lparr>volunteers := volunteers d @
                     [\<lparr>user_id = uid, camp_id_volunteers = Some campId,
                       volunteer_type = ''camp_volunteer'', status_volunteers = Some ''active''\<rparr>]\<rparr>,
                 ToastSuccess ''Successfully registered as volunteer!''))"
proof -
  have dup: "includes_str (message (PostgrestError
      (UniqueViolation ''volunteers_user_id_camp_id_volunteer_type_key''))) ''duplicate''"
    by code_simp
  have c1: "\<exists>e. insert_volunteers d uid r = Inl e"
    if "camp_id_volunteers r \<noteq> None" "list_ex (same_triple r) (volunteers d)"
    using that by (simp add: insert_volunteers_def)
  have c2: "\<not> list_ex (same_triple r) (volunteers d) \<and> d' = d\<lparr>volunteers := volunteers d @ [r]\<rparr>"
    if "camp_id_volunteers r \<noteq> None" "insert_volunteers d uid r = Inr d'"
    using that by (auto simp: insert_volunteers_def split: if_splits)
  let ?r = "\<lparr>user_id = uid, camp_id_volunteers = Some campId,
              volunteer_type = ''camp_volunteer'', status_volunteers = Some ''active''\<rparr>"
  have st: "same_triple ?r = (\<lambda>v. user_id v = uid \<and> camp_id_volunteers v = Some campId
                     \<and> volunteer_type v = ''camp_volunteer'')"
    by (auto simp: same_triple_def)
  have c3: "handleVolunteer d (Some uid) campId
              = (d, ToastError ''You're already registered for this camp'')"
    if "list_ex (\<lambda>v. user_id v = uid \<and> camp_id_volunteers v = Some campId
                     \<and> volunteer_type v = ''camp_volunteer'') (volunteers d)"
  proof -
    from that have "insert_volunteers d uid ?r
        = Inl (UniqueViolation ''volunteers_user_id_camp_id_volunteer_type_key'')"
      by (simp add: insert_volunteers_def st)
    with dup show ?thesis by (simp add: handleVolunteer_def volunteerErrorToast_def)
  qed
  have c4: "handleVolunteer d (Some uid) campId
              = (d\<lparr>volunteers := volunteers d @ [?r]\<rparr>,
                 ToastSuccess ''Successfully registered as volunteer!'')"
    if "\<not> list_ex (\<lambda>v. user_id v = uid \<and> camp_id_volunteers v = Some campId
                       \<and> volunteer_type v = ''camp_volunteer'') (volunteers d)"
      "profile_exists d uid" "camp_exists d campId"
  proof -
    from that have "insert_volunteers d uid ?r = Inr (d\<lparr>volunteers := volunteers d @ [?r]\<rparr>)"
      by (simp add: insert_volunteers_def st)
    then show ?thesis by (simp add: handleVolunteer_def)
  qed
  from c1 c2 c3 c4 show ?thesis by blast
qed

theorem duplicate_registration_rejected_witness:
  "handleVolunteer (relief [] []) (Some ''user-1'') ''camp-kochi''
     = (relief [] [], ToastError ''You're already registered for this camp'')
   \<and> snd (handleVolunteer (relief [] []) (Some ''user-1'') ''camp-aluva'')
     = ToastSuccess ''Successfully registered as volunteer!''"
  using duplicate_registration_rejected
      [where d = "relief [] []" and uid = "''user-1''" and campId = "''camp-kochi''"]
    duplicate_registration_rejected
      [where d = "relief [] []" and uid = "''user-1''" and campId = "''camp-aluva''"]
  by (simp add: example_defs profile_exists_def camp_exists_def)

text \<open>
  The claim as stated fails for a triple without a camp: the same user registers twice as
  a general volunteer with a null camp_id, and both rows are stored.
\<close>

theorem campless_registration_twice:
  "insert_volunteers (relief [] []) ''user-1''
      \<lparr>user_id = ''user-1'', camp_id_volunteers = None,
       volunteer_type = ''general'', status_volunteers = Some ''active''\<rparr>
     = Inr ((relief [] [])\<lparr>volunteers := volunteers (relief [] []) @
         [\<lparr>user_id = ''user-1'', camp_id_volunteers = None,
           volunteer_type = ''general'', status_volunteers = Some ''active''\<rparr>]\<rparr>)
   \<and> insert_volunteers ((relief [] [])\<lparr>volunteers := volunteers (relief [] []) @
         [\<lparr>user_id = ''user-1'', camp_id_volunteers = None,
           volunteer_type = ''general'', status_volunteers = Some ''active''\<rparr>]\<rparr>) ''user-1''
      \<lparr>user_id = ''user-1'', camp_id_volunteers = None,
       volunteer_type = ''general'', status_volunteers = Some ''active''\<rparr>
     = Inr ((relief [] [])\<lparr>volunteers := volunteers (relief [] []) @
         [\<lparr>user_id = ''user-1'', camp_id_volunteers = None,
           volunteer_type = ''general'', status_volunteers = Some ''active''\<rparr>,
          \<lparr>user_id = ''user-1'', camp_id_volunteers = None,
           volunteer_type = ''general'', status_volunteers = Some ''active''\<rparr>]\<rparr>)"
  by (simp add: db_defs example_defs)




text \<open>
  C9. The two \<^verbatim>\<open>urgencyColor\<close> functions agree on every string; both map critical to
  destructive, high to warning, medium to default, and every other string to secondary.
\<close>

theorem urgencyColor_agree:
  "urgencyColor_NGODashboard u = urgencyColor_CampDashboard u
   \<and> urgencyColor_NGODashboard ''critical'' = ''destructive''
   \<and> urgencyColor_NGODashboard ''high'' = ''warning''
   \<and> urgencyColor_NGODashboard ''medium'' = ''default''
   \<and> (u \<noteq> ''critical'' \<and> u \<noteq> ''high'' \<and> u \<noteq> ''medium''
        \<longrightarrow> urgencyColor_NGODashboard u = ''secondary'')"
  by (simp add: urgencyColor_NGODashboard_def urgencyColor_CampDashboard_def)

theorem urgencyColor_agree_witness:
  "urgencyColor_NGODashboard ''urgent!'' = ''secondary''
   \<and> urgencyColor_CampDashboard ''urgent!'' = ''secondary''"
  using urgencyColor_agree [of "''urgent!''"] by auto

text \<open>
  C10. The register button is disabled exactly when total_capacity - occupied_seats is 0;
  a camp with more occupied seats than capacity is badged Full and its button is enabled.
\<close>

theorem register_guard_misses_over_occupied:
  "(registerDisabled c \<longleftrightarrow> total_capacity c - occupied_seats c = 0)
   \<and> (occupied_seats c > total_capacity c
        \<longrightarrow> campBadge c = ''Full'' \<and> \<not> registerDisabled c)"
  by (auto simp: registerDisabled_def campBadge_def availableSeats_def)

theorem register_guard_misses_over_occupied_witness:
  "campBadge \<lparr>id_camps = ''c1'', camp_admin_id = ''a1'', name_camps = ''Aluva'',
       location_camps = ''Ernakulam'', total_capacity = 50, occupied_seats = 51,
       contact_phone = ''0484'', status_camps = ''active''\<rparr> = ''Full''
   \<and> \<not> registerDisabled \<lparr>id_camps = ''c1'', camp_admin_id = ''a1'', name_camps = ''Aluva'',
       location_camps = ''Ernakulam'', total_capacity = 50, occupied_seats = 51,
       contact_phone = ''0484'', status_camps = ''active''\<rparr>"
  using register_guard_misses_over_occupied
    [of "\<lparr>id_camps = ''c1'', camp_admin_id = ''a1'', name_camps = ''Aluva'',
       location_camps = ''Ernakulam'', total_capacity = 50, occupied_seats = 51,
       contact_phone = ''0484'', status_camps = ''active''\<rparr>"]
  by simp

end
